theory Spec2Isabelle
  imports Main
begin

section \<open>Passport form view controller: data model\<close>

text \<open>
  The development embeds \<^verbatim>\<open>passport/passport_form_view_controller.cpp\<close>.
  Enumerations are datatypes, structs are records, a failed \<^verbatim>\<open>Assert\<close> or a reached
  \<^verbatim>\<open>Unexpected\<close> is the \<open>Inl\<close> branch of a sum, and \<^verbatim>\<open>QString\<close> is \<open>string\<close>
  (the null and the empty \<^verbatim>\<open>QString\<close> are both \<open>''''\<close>).
\<close>

text \<open>\<^verbatim>\<open>Value::Type\<close>; the constructors carry the prefix \<open>V_\<close> because
  \<^verbatim>\<open>Scope::Type\<close> reuses three of the names.\<close>

datatype ValueType =
    V_PersonalDetails
  | V_Passport
  | V_DriverLicense
  | V_IdentityCard
  | V_Address
  | V_UtilityBill
  | V_BankStatement
  | V_RentalAgreement
  | V_Phone
  | V_Email

text \<open>\<^verbatim>\<open>Scope::Type\<close>, constructors prefixed with \<open>S_\<close>.\<close>

datatype ScopeType = S_Identity | S_Address | S_Phone | S_Email

text \<open>An attached file. Only the presence of files is read here, so a file is
  an identifier.\<close>

datatype File = File nat

text \<open>\<^verbatim>\<open>Value\<close>: the members this file reads. \<open>parsed_fields\<close> is
  \<^verbatim>\<open>data.parsed.fields\<close>, a \<^verbatim>\<open>std::map<QString, QString>\<close>.\<close>

record Value =
  vtype :: ValueType
  parsed_fields :: "string \<rightharpoonup> string"
  scans :: "File list"
  selfie :: "File option"

text \<open>\<^verbatim>\<open>Scope\<close>. The members \<open>fields\<close> (here \<open>scope_fields\<close>) and \<open>documents\<close> are pointers to
  constant \<^verbatim>\<open>Value\<close>s owned by the form; nothing in this file writes through
  them, so a pointer is modelled by the value it points at.\<close>

record Scope =
  scope_type :: ScopeType
  scope_fields :: Value
  documents :: "Value list"
  selfieRequired :: bool

text \<open>The constructor \<^verbatim>\<open>Scope::Scope(Type type, not_null<const Value*> fields)\<close>
  initialises \<open>type\<close> and \<open>fields\<close>; the vector starts empty and the flag
  starts false.\<close>

definition Scope_new :: "ScopeType \<Rightarrow> Value \<Rightarrow> Scope" where
  "Scope_new t f = \<lparr>scope_type = t, scope_fields = f, documents = [], selfieRequired = False\<rparr>"

text \<open>\<^verbatim>\<open>ScopeRow\<close>: title, subtitle and the summary.\<close>

record ScopeRow =
  title :: string
  subtitle :: string
  ready :: string

text \<open>The members of the form that \<^verbatim>\<open>ComputeScopes\<close> reads.\<close>

record Form =
  request :: "ValueType list"
  form_values :: "ValueType \<rightharpoonup> Value"
  identitySelfieRequired :: bool

text \<open>Every way in which the code aborts.\<close>

datatype failure =
    Assert_ScopeTypeForValueType
  | Assert_FieldsTypeForScopeType
  | Assert_findValue
  | Unexpected_Files_type_in_ComputeScopeRowReadyString
  | Unexpected_Identity_type_in_ComputeScopeRow
  | Unexpected_Address_type_in_ComputeScopeRow

section \<open>Category map\<close>

definition ScopeTypesMap :: "(ValueType \<times> ScopeType) list" where
  "ScopeTypesMap =
    [ (V_PersonalDetails, S_Identity),
      (V_Passport, S_Identity),
      (V_DriverLicense, S_Identity),
      (V_IdentityCard, S_Identity),
      (V_Address, S_Address),
      (V_UtilityBill, S_Address),
      (V_BankStatement, S_Address),
      (V_RentalAgreement, S_Address),
      (V_Phone, S_Phone),
      (V_Email, S_Email) ]"

definition ScopeTypeForValueType :: "ValueType \<Rightarrow> failure + ScopeType" where
  "ScopeTypeForValueType t =
    (case map_of ScopeTypesMap t of
       None \<Rightarrow> Inl Assert_ScopeTypeForValueType
     | Some s \<Rightarrow> Inr s)"

definition ScopeFieldsMap :: "(ScopeType \<times> ValueType) list" where
  "ScopeFieldsMap =
    [ (S_Identity, V_PersonalDetails),
      (S_Address, V_Address),
      (S_Phone, V_Phone),
      (S_Email, V_Email) ]"

definition FieldsTypeForScopeType :: "ScopeType \<Rightarrow> failure + ValueType" where
  "FieldsTypeForScopeType t =
    (case map_of ScopeFieldsMap t of
       None \<Rightarrow> Inl Assert_FieldsTypeForScopeType
     | Some v \<Rightarrow> Inr v)"

section \<open>External collaborators\<close>

text \<open>The keys of the localized strings this file asks \<^verbatim>\<open>lang\<close> for.\<close>

datatype LangKey =
    lng_passport_identity_passport
  | lng_passport_identity_license
  | lng_passport_identity_card
  | lng_passport_address_statement
  | lng_passport_address_bill
  | lng_passport_address_agreement
  | lng_passport_personal_details
  | lng_passport_personal_details_enter
  | lng_passport_identity_passport_upload
  | lng_passport_identity_card_upload
  | lng_passport_identity_license_upload
  | lng_passport_identity_title
  | lng_passport_identity_description
  | lng_passport_address
  | lng_passport_address_enter
  | lng_passport_address_statement_upload
  | lng_passport_address_bill_upload
  | lng_passport_address_agreement_upload
  | lng_passport_address_title
  | lng_passport_address_description
  | lng_passport_phone_title
  | lng_passport_phone_description
  | lng_passport_email_title
  | lng_passport_email_description

text \<open>\<^verbatim>\<open>EditDocumentScheme\<close> and its rows, and \<^verbatim>\<open>EditContactScheme\<close>: the members
  read here. \<open>validate\<close> and \<open>format\<close> are nullable function objects, hence
  options. The member \<open>format\<close> of the contact scheme is \<open>contact_format\<close>.\<close>

datatype ValueClass = Fields | Scans

record Row =
  valueClass :: ValueClass
  key :: string
  validate :: "(string \<Rightarrow> bool) option"
  format :: "(string \<Rightarrow> string) option"

record EditDocumentScheme =
  rows :: "Row list"

record EditContactScheme =
  contact_format :: "(string \<Rightarrow> string) option"

text \<open>The functions defined elsewhere in the application are parameters of the
  model: the localized-string provider and the two scheme tables.\<close>

record Env =
  lang :: "LangKey \<Rightarrow> string"
  GetDocumentScheme :: "ScopeType \<Rightarrow> EditDocumentScheme"
  GetContactScheme :: "ScopeType \<Rightarrow> EditContactScheme"

section \<open>Scope builder\<close>

text \<open>The lambda \<^verbatim>\<open>findValue\<close> of \<^verbatim>\<open>ComputeScopes\<close>.\<close>

definition findValue :: "Form \<Rightarrow> ValueType \<Rightarrow> failure + Value" where
  "findValue form t =
    (case form_values form t of
       None \<Rightarrow> Inl Assert_findValue
     | Some v \<Rightarrow> Inr v)"

text \<open>
  One iteration of \<^verbatim>\<open>for (const auto type : form.request)\<close>. The state is the
  \<^verbatim>\<open>std::map<Scope::Type, Scope>\<close> under construction together with the lines
  written by \<^verbatim>\<open>LOG\<close>, each recorded as the value type it reports.
  \<^verbatim>\<open>emplace\<close> evaluates \<^verbatim>\<open>findValue(fieldsType)\<close> before it looks for the key and
  leaves an existing entry alone.
\<close>

definition ComputeScopes_step ::
  "Form \<Rightarrow> ValueType \<Rightarrow> (ScopeType \<rightharpoonup> Scope) \<times> ValueType list
    \<Rightarrow> failure + ((ScopeType \<rightharpoonup> Scope) \<times> ValueType list)" where
  "ComputeScopes_step form t st =
    (case st of (scopes, log) \<Rightarrow>
      (case ScopeTypeForValueType t of
         Inl e \<Rightarrow> Inl e
       | Inr scopeType \<Rightarrow>
          (case FieldsTypeForScopeType scopeType of
             Inl e \<Rightarrow> Inl e
           | Inr fieldsType \<Rightarrow>
              (case findValue form fieldsType of
                 Inl e \<Rightarrow> Inl e
               | Inr fieldsValue \<Rightarrow>
                  (let emplaced = (case scopes scopeType of
                                     None \<Rightarrow> Scope_new scopeType fieldsValue
                                   | Some existing \<Rightarrow> existing);
                       scope = emplaced\<lparr>selfieRequired :=
                                 (scopeType = S_Identity \<and> identitySelfieRequired form)\<rparr>
                   in if t \<in> set (map vtype (documents scope))
                      then Inr (scopes(scopeType \<mapsto> scope), log @ [t])
                      else if t \<noteq> fieldsType
                      then (case findValue form t of
                              Inl e \<Rightarrow> Inl e
                            | Inr v \<Rightarrow>
                                Inr (scopes(scopeType \<mapsto>
                                       (scope\<lparr>documents := documents scope @ [v]\<rparr>)),
                                     log))
                      else Inr (scopes(scopeType \<mapsto> scope), log))))))"

fun ComputeScopes_loop ::
  "Form \<Rightarrow> ValueType list \<Rightarrow> (ScopeType \<rightharpoonup> Scope) \<times> ValueType list
    \<Rightarrow> failure + ((ScopeType \<rightharpoonup> Scope) \<times> ValueType list)" where
  "ComputeScopes_loop form [] st = Inr st"
| "ComputeScopes_loop form (t # ts) st =
    (case ComputeScopes_step form t st of
       Inl e \<Rightarrow> Inl e
     | Inr st' \<Rightarrow> ComputeScopes_loop form ts st')"

text \<open>
  Modelled from the spec: the declaration order of \<^verbatim>\<open>enum class Scope::Type\<close>,
  which lives in the header \<^verbatim>\<open>passport_form_view_controller.h\<close> and decides the
  iteration order of the \<^verbatim>\<open>std::map\<close>. The spec gives the rank as Identity,
  Address, Phone, Email.
\<close>

definition ScopeType_order :: "ScopeType list" where
  "ScopeType_order = [S_Identity, S_Address, S_Phone, S_Email]"

text \<open>\<^verbatim>\<open>ComputeScopes\<close> returns the scopes of the map in key order; the model
  returns the log lines beside them.\<close>

definition ComputeScopes :: "Form \<Rightarrow> failure + (Scope list \<times> ValueType list)" where
  "ComputeScopes form =
    (case ComputeScopes_loop form (request form) (Map.empty, []) of
       Inl e \<Rightarrow> Inl e
     | Inr (scopes, log) \<Rightarrow> Inr (List.map_filter scopes ScopeType_order, log))"

section \<open>Summary formatter\<close>

text \<open>\<^verbatim>\<open>QStringList::join\<close>.\<close>

fun join :: "string list \<Rightarrow> string \<Rightarrow> string" where
  "join [] sep = ''''"
| "join [x] sep = x"
| "join (x # y # ys) sep = x @ sep @ join (y # ys) sep"

text \<open>The immediately invoked lambda that picks \<^verbatim>\<open>document\<close>: the first
  document with scans, or the null pointer.\<close>

definition find_document :: "Scope \<Rightarrow> Value option" where
  "find_document scope = List.find (\<lambda>document. scans document \<noteq> []) (documents scope)"

text \<open>The \<^verbatim>\<open>switch (document->type)\<close> that picks the label.\<close>

fun document_label :: "ValueType \<Rightarrow> failure + LangKey" where
  "document_label V_Passport = Inr lng_passport_identity_passport"
| "document_label V_DriverLicense = Inr lng_passport_identity_license"
| "document_label V_IdentityCard = Inr lng_passport_identity_card"
| "document_label V_BankStatement = Inr lng_passport_address_statement"
| "document_label V_UtilityBill = Inr lng_passport_address_bill"
| "document_label V_RentalAgreement = Inr lng_passport_address_agreement"
| "document_label _ = Inl Unexpected_Files_type_in_ComputeScopeRowReadyString"

text \<open>The condition of the early return that follows the label:
  \<^verbatim>\<open>document && (document->scans.empty() || (scope.selfieRequired && !document->selfie))\<close>.\<close>

definition document_incomplete :: "Scope \<Rightarrow> Value option \<Rightarrow> bool" where
  "document_incomplete scope document =
    (case document of
       None \<Rightarrow> False
     | Some d \<Rightarrow> scans d = [] \<or> (selfieRequired scope \<and> selfie d = None))"

text \<open>\<^verbatim>\<open>row.validate && !row.validate(value)\<close>.\<close>

definition rejected :: "Row \<Rightarrow> string \<Rightarrow> bool" where
  "rejected row v = (case validate row of None \<Rightarrow> False | Some ok \<Rightarrow> \<not> ok v)"

text \<open>The body of the loop over \<^verbatim>\<open>scheme.rows\<close>: the string that the row
  pushes onto \<^verbatim>\<open>list\<close>, or \<open>None\<close> where the body executes
  \<^verbatim>\<open>return QString()\<close>.\<close>

definition row_string :: "(string \<rightharpoonup> string) \<Rightarrow> Value option \<Rightarrow> Row \<Rightarrow> string option" where
  "row_string flds document row =
    (if valueClass row = Fields then
       (case flds (key row) of
          None \<Rightarrow> None
        | Some v \<Rightarrow>
            if rejected row v then None
            else Some (case format row of Some f \<Rightarrow> f v | None \<Rightarrow> v))
     else
       (case document of
          None \<Rightarrow> None
        | Some d \<Rightarrow>
            (case parsed_fields d (key row) of
               None \<Rightarrow> None
             | Some v \<Rightarrow>
                 if rejected row v then None
                 else Some v)))"

text \<open>The loop itself together with the final \<^verbatim>\<open>return list.join(", ")\<close>.\<close>

fun rows_loop ::
  "(string \<rightharpoonup> string) \<Rightarrow> Value option \<Rightarrow> Row list \<Rightarrow> string list \<Rightarrow> string" where
  "rows_loop flds document [] list = join list '', ''"
| "rows_loop flds document (row # rest) list =
    (case row_string flds document row of
       None \<Rightarrow> ''''
     | Some s \<Rightarrow> rows_loop flds document rest (list @ [s]))"

text \<open>The branch for \<^verbatim>\<open>Scope::Type::Identity\<close> and \<^verbatim>\<open>Scope::Type::Address\<close>.\<close>

definition document_summary :: "Env \<Rightarrow> Scope \<Rightarrow> failure + string" where
  "document_summary env scope =
    (let flds = parsed_fields (scope_fields scope);
         document = find_document scope
     in case (case document of
                None \<Rightarrow> Inr []
              | Some d \<Rightarrow>
                  if length (documents scope) > 1
                  then (case document_label (vtype d) of
                          Inl e \<Rightarrow> Inl e
                        | Inr k \<Rightarrow> Inr [lang env k])
                  else Inr []) of
          Inl e \<Rightarrow> Inl e
        | Inr list \<Rightarrow>
            if document_incomplete scope document then Inr ''''
            else Inr (rows_loop flds document
                        (rows (GetDocumentScheme env (scope_type scope))) list))"

text \<open>The branch for \<^verbatim>\<open>Scope::Type::Phone\<close> and \<^verbatim>\<open>Scope::Type::Email\<close>.\<close>

definition contact_summary :: "Env \<Rightarrow> Scope \<Rightarrow> string" where
  "contact_summary env scope =
    (let fmt = contact_format (GetContactScheme env (scope_type scope));
         flds = parsed_fields (scope_fields scope)
     in case flds ''value'' of
          Some v \<Rightarrow> (case fmt of Some f \<Rightarrow> f v | None \<Rightarrow> v)
        | None \<Rightarrow> '''')"

text \<open>\<^verbatim>\<open>ComputeScopeRowReadyString\<close>. The four cases cover the enumeration, so the
  \<^verbatim>\<open>Unexpected\<close> after the switch is not reached.\<close>

definition ComputeScopeRowReadyString :: "Env \<Rightarrow> Scope \<Rightarrow> failure + string" where
  "ComputeScopeRowReadyString env scope =
    (case scope_type scope of
       S_Identity \<Rightarrow> document_summary env scope
     | S_Address \<Rightarrow> document_summary env scope
     | S_Phone \<Rightarrow> Inr (contact_summary env scope)
     | S_Email \<Rightarrow> Inr (contact_summary env scope))"

section \<open>Row presenter\<close>

text \<open>The braced return \<^verbatim>\<open>{ lang(t), lang(s), ComputeScopeRowReadyString(scope) }\<close>.\<close>

definition make_row :: "Env \<Rightarrow> Scope \<Rightarrow> LangKey \<Rightarrow> LangKey \<Rightarrow> failure + ScopeRow" where
  "make_row env scope t s =
    (case ComputeScopeRowReadyString env scope of
       Inl e \<Rightarrow> Inl e
     | Inr r \<Rightarrow> Inr \<lparr>title = lang env t, subtitle = lang env s, ready = r\<rparr>)"

text \<open>\<^verbatim>\<open>ComputeScopeRow\<close>. \<open>hd\<close> stands for \<^verbatim>\<open>front()\<close> and is used only where the
  vector has exactly one element. The outer switch covers the enumeration, so
  its \<^verbatim>\<open>default\<close> is not reached.\<close>

definition ComputeScopeRow :: "Env \<Rightarrow> Scope \<Rightarrow> failure + ScopeRow" where
  "ComputeScopeRow env scope =
    (case scope_type scope of
       S_Identity \<Rightarrow>
         if documents scope = [] then
           make_row env scope lng_passport_personal_details lng_passport_personal_details_enter
         else if length (documents scope) = 1 then
           (case vtype (hd (documents scope)) of
              V_Passport \<Rightarrow>
                make_row env scope lng_passport_identity_passport
                  lng_passport_identity_passport_upload
            | V_IdentityCard \<Rightarrow>
                make_row env scope lng_passport_identity_card lng_passport_identity_card_upload
            | V_DriverLicense \<Rightarrow>
                make_row env scope lng_passport_identity_license
                  lng_passport_identity_license_upload
            | _ \<Rightarrow> Inl Unexpected_Identity_type_in_ComputeScopeRow)
         else make_row env scope lng_passport_identity_title lng_passport_identity_description
     | S_Address \<Rightarrow>
         if documents scope = [] then
           make_row env scope lng_passport_address lng_passport_address_enter
         else if length (documents scope) = 1 then
           (case vtype (hd (documents scope)) of
              V_BankStatement \<Rightarrow>
                make_row env scope lng_passport_address_statement
                  lng_passport_address_statement_upload
            | V_UtilityBill \<Rightarrow>
                make_row env scope lng_passport_address_bill lng_passport_address_bill_upload
            | V_RentalAgreement \<Rightarrow>
                make_row env scope lng_passport_address_agreement
                  lng_passport_address_agreement_upload
            | _ \<Rightarrow> Inl Unexpected_Address_type_in_ComputeScopeRow)
         else make_row env scope lng_passport_address_title lng_passport_address_description
     | S_Phone \<Rightarrow> make_row env scope lng_passport_phone_title lng_passport_phone_description
     | S_Email \<Rightarrow> make_row env scope lng_passport_email_title lng_passport_email_description)"

section \<open>Well-formed forms and scopes\<close>

text \<open>The form stores each value under its own type (\<open>form.values\<close> is keyed by
  \<^verbatim>\<open>Value::Type\<close> and filled outside this file), so a lookup that succeeds
  returns a value of the type asked for.\<close>

definition resolves :: "Form \<Rightarrow> ValueType \<Rightarrow> bool" where
  "resolves form t = (case form_values form t of None \<Rightarrow> False | Some v \<Rightarrow> vtype v = t)"

text \<open>A requested type is served when it resolves and the fields type of its
  scope resolves; a form is well formed when every requested type is served.
  These are the lookups on which \<^verbatim>\<open>findValue\<close> asserts.\<close>

definition request_ok :: "Form \<Rightarrow> ValueType \<Rightarrow> bool" where
  "request_ok form t =
    (resolves form t \<and>
     (case ScopeTypeForValueType t of
        Inl e \<Rightarrow> False
      | Inr s \<Rightarrow> (case FieldsTypeForScopeType s of
                   Inl e \<Rightarrow> False
                 | Inr p \<Rightarrow> resolves form p)))"

definition form_ok :: "Form \<Rightarrow> bool" where
  "form_ok form = list_all (request_ok form) (request form)"

text \<open>The types that are documents of a scope type: they map to it and are not
  its fields type.\<close>

definition document_of :: "ScopeType \<Rightarrow> ValueType \<Rightarrow> bool" where
  "document_of s t =
    (ScopeTypeForValueType t = Inr s \<and> FieldsTypeForScopeType s \<noteq> Inr t)"

definition is_document :: "ValueType \<Rightarrow> bool" where
  "is_document t =
    (case ScopeTypeForValueType t of Inl e \<Rightarrow> False | Inr s \<Rightarrow> document_of s t)"

text \<open>The documents of a scope belong to the scope.\<close>

definition documents_belong :: "Scope \<Rightarrow> bool" where
  "documents_belong scope =
    list_all (\<lambda>d. document_of (scope_type scope) (vtype d)) (documents scope)"

text \<open>The first occurrences of a list, in order.\<close>

definition keep_first :: "'a list \<Rightarrow> 'a list" where
  "keep_first xs = rev (remdups (rev xs))"

text \<open>What the map of \<^verbatim>\<open>ComputeScopes\<close> holds once the requests \<open>ts\<close> have
  been processed, and what has been logged once \<open>ts\<close> have been processed
  after \<open>seen\<close>.\<close>

definition requested_documents :: "ScopeType \<Rightarrow> ValueType list \<Rightarrow> ValueType list" where
  "requested_documents s ts = keep_first (filter (document_of s) ts)"

definition built :: "Form \<Rightarrow> ValueType list \<Rightarrow> ScopeType \<rightharpoonup> Scope" where
  "built form ts s =
    (if list_ex (\<lambda>t. ScopeTypeForValueType t = Inr s) ts
     then (case FieldsTypeForScopeType s of
             Inl e \<Rightarrow> None
           | Inr p \<Rightarrow>
               (case form_values form p of
                  None \<Rightarrow> None
                | Some f \<Rightarrow>
                    Some \<lparr>scope_type = s, scope_fields = f,
                          documents = List.map_filter (form_values form)
                                        (requested_documents s ts),
                          selfieRequired = (s = S_Identity \<and> identitySelfieRequired form)\<rparr>))
     else None)"

fun logged :: "ValueType list \<Rightarrow> ValueType list \<Rightarrow> ValueType list" where
  "logged seen [] = []"
| "logged seen (t # ts) =
    (if t \<in> set seen \<and> is_document t then [t] else [])
      @ logged (seen @ [t]) ts"

section \<open>Example inputs\<close>

text \<open>A string table, scheme tables, values, scopes and a form on which the
  functions are evaluated below.\<close>

fun lang_en :: "LangKey \<Rightarrow> string" where
  "lang_en lng_passport_identity_passport = ''Passport''"
| "lang_en lng_passport_identity_license = ''Driver license''"
| "lang_en lng_passport_identity_card = ''Identity card''"
| "lang_en lng_passport_address_statement = ''Bank Statement''"
| "lang_en lng_passport_address_bill = ''Utility Bill''"
| "lang_en lng_passport_address_agreement = ''Rental Agreement''"
| "lang_en lng_passport_personal_details = ''Personal details''"
| "lang_en lng_passport_personal_details_enter = ''Enter your personal details''"
| "lang_en lng_passport_identity_passport_upload = ''Upload a scan of your passport''"
| "lang_en lng_passport_identity_card_upload = ''Upload a scan of your identity card''"
| "lang_en lng_passport_identity_license_upload = ''Upload a scan of your driver license''"
| "lang_en lng_passport_identity_title = ''Identity document''"
| "lang_en lng_passport_identity_description = ''Upload a scan of your identity document''"
| "lang_en lng_passport_address = ''Residential address''"
| "lang_en lng_passport_address_enter = ''Enter your residential address''"
| "lang_en lng_passport_address_statement_upload = ''Upload a scan of your bank statement''"
| "lang_en lng_passport_address_bill_upload = ''Upload a scan of your utility bill''"
| "lang_en lng_passport_address_agreement_upload = ''Upload a scan of your rental agreement''"
| "lang_en lng_passport_address_title = ''Residential address''"
| "lang_en lng_passport_address_description = ''Upload a proof of your address''"
| "lang_en lng_passport_phone_title = ''Phone number''"
| "lang_en lng_passport_phone_description = ''Enter your phone number''"
| "lang_en lng_passport_email_title = ''Email''"
| "lang_en lng_passport_email_description = ''Enter your email address''"

definition NotEmptyValidate :: "string \<Rightarrow> bool" where
  "NotEmptyValidate v = (v \<noteq> '''')"

definition GenderFormat :: "string \<Rightarrow> string" where
  "GenderFormat v =
    (if v = ''male'' then ''Male'' else if v = ''female'' then ''Female'' else v)"

definition example_document_scheme :: "ScopeType \<Rightarrow> EditDocumentScheme" where
  "example_document_scheme s =
    (if s = S_Identity then
       \<lparr>rows =
         [ \<lparr>valueClass = Fields, key = ''first_name'',
             validate = Some NotEmptyValidate, format = None\<rparr>,
           \<lparr>valueClass = Fields, key = ''gender'',
             validate = None, format = Some GenderFormat\<rparr>,
           \<lparr>valueClass = Scans, key = ''document_no'',
             validate = Some NotEmptyValidate, format = None\<rparr> ]\<rparr>
     else
       \<lparr>rows =
         [ \<lparr>valueClass = Fields, key = ''street_line1'',
             validate = Some NotEmptyValidate, format = None\<rparr>,
           \<lparr>valueClass = Fields, key = ''city'',
             validate = Some NotEmptyValidate, format = None\<rparr> ]\<rparr>)"

definition example_env :: Env where
  "example_env =
    \<lparr>lang = lang_en,
     GetDocumentScheme = example_document_scheme,
     GetContactScheme = (\<lambda>s. \<lparr>contact_format = None\<rparr>)\<rparr>"

text \<open>A table whose document row carries a formatter.\<close>

definition numbering_env :: Env where
  "numbering_env =
    \<lparr>lang = lang_en,
     GetDocumentScheme = (\<lambda>s.
       \<lparr>rows = [ \<lparr>valueClass = Scans, key = ''document_no'',
                   validate = None, format = Some (\<lambda>v. ''No. '' @ v)\<rparr> ]\<rparr>),
     GetContactScheme = (\<lambda>s. \<lparr>contact_format = None\<rparr>)\<rparr>"

definition personal_details_value :: Value where
  "personal_details_value =
    \<lparr>vtype = V_PersonalDetails,
     parsed_fields = [''first_name'' \<mapsto> ''Ada'', ''gender'' \<mapsto> ''female''],
     scans = [], selfie = None\<rparr>"

definition passport_value :: Value where
  "passport_value =
    \<lparr>vtype = V_Passport, parsed_fields = [''document_no'' \<mapsto> ''X123''],
     scans = [File 1], selfie = None\<rparr>"

definition identity_card_value :: Value where
  "identity_card_value =
    \<lparr>vtype = V_IdentityCard, parsed_fields = Map.empty, scans = [], selfie = None\<rparr>"

definition address_value :: Value where
  "address_value =
    \<lparr>vtype = V_Address,
     parsed_fields = [''street_line1'' \<mapsto> ''1 Main St'', ''city'' \<mapsto> ''Springfield''],
     scans = [], selfie = None\<rparr>"

definition utility_bill_value :: Value where
  "utility_bill_value =
    \<lparr>vtype = V_UtilityBill, parsed_fields = Map.empty, scans = [File 2], selfie = None\<rparr>"

definition rental_agreement_value :: Value where
  "rental_agreement_value =
    \<lparr>vtype = V_RentalAgreement, parsed_fields = Map.empty, scans = [], selfie = None\<rparr>"

definition phone_value :: Value where
  "phone_value =
    \<lparr>vtype = V_Phone, parsed_fields = [''value'' \<mapsto> ''+1 555 0100''],
     scans = [], selfie = None\<rparr>"

definition passport_scope :: Scope where
  "passport_scope =
    \<lparr>scope_type = S_Identity, scope_fields = personal_details_value,
     documents = [passport_value], selfieRequired = False\<rparr>"

definition selfie_scope :: Scope where
  "selfie_scope =
    \<lparr>scope_type = S_Identity, scope_fields = personal_details_value,
     documents = [passport_value], selfieRequired = True\<rparr>"

definition address_scope :: Scope where
  "address_scope =
    \<lparr>scope_type = S_Address, scope_fields = address_value,
     documents = [utility_bill_value, rental_agreement_value], selfieRequired = False\<rparr>"

definition phone_scope :: Scope where
  "phone_scope =
    \<lparr>scope_type = S_Phone, scope_fields = phone_value,
     documents = [], selfieRequired = False\<rparr>"

definition email_value :: Value where
  "email_value =
    \<lparr>vtype = V_Email, parsed_fields = [''value'' \<mapsto> ''ada@example.org''],
     scans = [], selfie = None\<rparr>"

definition email_scope :: Scope where
  "email_scope =
    \<lparr>scope_type = S_Email, scope_fields = email_value,
     documents = [], selfieRequired = False\<rparr>"

text \<open>An Identity scope with two documents, of which the second is the first with
  scans.\<close>

definition two_document_scope :: Scope where
  "two_document_scope =
    \<lparr>scope_type = S_Identity, scope_fields = personal_details_value,
     documents = [identity_card_value, passport_value], selfieRequired = False\<rparr>"

definition example_form :: Form where
  "example_form =
    \<lparr>request = [V_Phone, V_UtilityBill, V_Passport, V_PersonalDetails, V_Passport, V_Address],
     form_values =
       [ V_PersonalDetails \<mapsto> personal_details_value,
         V_Passport \<mapsto> passport_value,
         V_IdentityCard \<mapsto> identity_card_value,
         V_Address \<mapsto> address_value,
         V_UtilityBill \<mapsto> utility_bill_value,
         V_RentalAgreement \<mapsto> rental_agreement_value,
         V_Phone \<mapsto> phone_value ],
     identitySelfieRequired = False\<rparr>"

section \<open>Properties of the category map\<close>

lemma ScopeTypeForValueType_simps [simp]:
  "ScopeTypeForValueType V_PersonalDetails = Inr S_Identity"
  "ScopeTypeForValueType V_Passport = Inr S_Identity"
  "ScopeTypeForValueType V_DriverLicense = Inr S_Identity"
  "ScopeTypeForValueType V_IdentityCard = Inr S_Identity"
  "ScopeTypeForValueType V_Address = Inr S_Address"
  "ScopeTypeForValueType V_UtilityBill = Inr S_Address"
  "ScopeTypeForValueType V_BankStatement = Inr S_Address"
  "ScopeTypeForValueType V_RentalAgreement = Inr S_Address"
  "ScopeTypeForValueType V_Phone = Inr S_Phone"
  "ScopeTypeForValueType V_Email = Inr S_Email"
  by (simp_all add: ScopeTypeForValueType_def ScopeTypesMap_def)

lemma FieldsTypeForScopeType_simps [simp]:
  "FieldsTypeForScopeType S_Identity = Inr V_PersonalDetails"
  "FieldsTypeForScopeType S_Address = Inr V_Address"
  "FieldsTypeForScopeType S_Phone = Inr V_Phone"
  "FieldsTypeForScopeType S_Email = Inr V_Email"
  by (simp_all add: FieldsTypeForScopeType_def ScopeFieldsMap_def)

text \<open>
  Claim C4. Both lookups succeed on every member of their enumeration (neither
  \<^verbatim>\<open>Assert\<close> fires), and for each of the four scope types the scope type of its
  fields type is that scope type again.
\<close>

theorem category_map_round_trip:
  "(\<exists>v. FieldsTypeForScopeType s = Inr v \<and> ScopeTypeForValueType v = Inr s)
   \<and> (\<exists>s'. ScopeTypeForValueType t = Inr s')"
  by (cases s; cases t; simp)

section \<open>Properties of the scope builder\<close>

subsection \<open>The loop invariant\<close>

lemma keep_first_snoc:
  "keep_first (xs @ [x]) = (if x \<in> set xs then keep_first xs else keep_first xs @ [x])"
  by (simp add: keep_first_def)

lemma set_keep_first [simp]: "set (keep_first xs) = set xs"
  by (simp add: keep_first_def)

lemma distinct_keep_first [simp]: "distinct (keep_first xs)"
  by (simp add: keep_first_def)

lemma remdups_drop_earlier:
  "x \<in> set ys \<Longrightarrow> remdups (xs @ x # ys) = remdups (xs @ ys)"
  by (induction xs) auto

lemma keep_first_drop_later:
  "x \<in> set xs \<Longrightarrow> keep_first (xs @ x # ys) = keep_first (xs @ ys)"
  by (simp add: keep_first_def remdups_drop_earlier)

lemma requested_documents_snoc:
  "requested_documents s (pre @ [t]) =
    (if document_of s t \<and> t \<notin> set pre then requested_documents s pre @ [t]
     else requested_documents s pre)"
  by (simp add: requested_documents_def keep_first_snoc)

lemma set_requested_documents:
  "set (requested_documents s ts) = {t \<in> set ts. document_of s t}"
  by (auto simp: requested_documents_def)

lemma map_filter_snoc:
  "List.map_filter f (xs @ [x]) =
     List.map_filter f xs @ (case f x of None \<Rightarrow> [] | Some y \<Rightarrow> [y])"
  by (simp add: List.map_filter_def split: option.splits)

lemma vtype_map_filter:
  "list_all (resolves form) ts \<Longrightarrow> map vtype (List.map_filter (form_values form) ts) = ts"
  by (induction ts) (auto simp: List.map_filter_simps resolves_def split: option.splits)

lemma request_ok_resolves: "request_ok form t \<Longrightarrow> resolves form t"
  by (simp add: request_ok_def)

lemma resolves_requested_documents:
  "list_all (request_ok form) ts \<Longrightarrow> list_all (resolves form) (requested_documents s ts)"
  by (auto simp: list_all_iff set_requested_documents request_ok_resolves)

lemma built_Nil [simp]: "built form [] = Map.empty"
  by (rule ext) (simp add: built_def)

lemma built_snoc:
  assumes "ScopeTypeForValueType t = Inr s"
      and "FieldsTypeForScopeType s = Inr p"
      and "form_values form p = Some f"
  shows "built form (pre @ [t]) =
    (built form pre)(s \<mapsto>
      \<lparr>scope_type = s, scope_fields = f,
       documents = List.map_filter (form_values form) (requested_documents s (pre @ [t])),
       selfieRequired = (s = S_Identity \<and> identitySelfieRequired form)\<rparr>)"
proof (rule ext)
  fix s'
  show "built form (pre @ [t]) s' =
    ((built form pre)(s \<mapsto>
      \<lparr>scope_type = s, scope_fields = f,
       documents = List.map_filter (form_values form) (requested_documents s (pre @ [t])),
       selfieRequired = (s = S_Identity \<and> identitySelfieRequired form)\<rparr>)) s'"
  proof (cases "s' = s")
    case True
    then show ?thesis using assms by (simp add: built_def)
  next
    case False
    then have "\<not> document_of s' t" using assms(1) by (auto simp: document_of_def)
    then have "requested_documents s' (pre @ [t]) = requested_documents s' pre"
      by (simp add: requested_documents_snoc)
    then have "built form (pre @ [t]) s' = built form pre s'"
      using False assms(1) by (auto simp: built_def split: sum.splits option.splits)
    then show ?thesis using False by simp
  qed
qed

lemma built_unseen:
  "\<not> list_ex (\<lambda>t. ScopeTypeForValueType t = Inr s) pre \<Longrightarrow> requested_documents s pre = []"
  by (auto simp: requested_documents_def keep_first_def list_ex_iff filter_empty_conv document_of_def)

lemma ComputeScopes_step_built:
  assumes ok: "request_ok form t" and pre: "list_all (request_ok form) pre"
  shows "ComputeScopes_step form t (built form pre, log) =
     Inr (built form (pre @ [t]),
          log @ (if t \<in> set pre \<and> is_document t then [t] else []))"
proof -
  obtain s where s: "ScopeTypeForValueType t = Inr s"
    using ok by (auto simp: request_ok_def split: sum.splits)
  obtain p where p: "FieldsTypeForScopeType s = Inr p"
    using ok s by (auto simp: request_ok_def split: sum.splits)
  obtain f where f: "form_values form p = Some f"
    using ok s p by (auto simp: request_ok_def resolves_def split: option.splits)
  obtain v where v: "form_values form t = Some v" "vtype v = t"
    using ok by (auto simp: request_ok_def resolves_def split: option.splits)
  let ?docs = "List.map_filter (form_values form) (requested_documents s pre)"
  let ?scope = "\<lparr>scope_type = s, scope_fields = f, documents = ?docs,
                 selfieRequired = (s = S_Identity \<and> identitySelfieRequired form)\<rparr>"
  have emplaced:
    "(case built form pre s of None \<Rightarrow> Scope_new s f | Some existing \<Rightarrow> existing)
       \<lparr>selfieRequired := (s = S_Identity \<and> identitySelfieRequired form)\<rparr> = ?scope"
    using p f by (simp add: built_def Scope_new_def built_unseen List.map_filter_simps)
  have docs0:
    "documents (case built form pre s of None \<Rightarrow> Scope_new s f | Some existing \<Rightarrow> existing)
       = ?docs"
    using p f by (simp add: built_def Scope_new_def built_unseen List.map_filter_simps)
  have types: "map vtype ?docs = requested_documents s pre"
    using pre by (simp add: vtype_map_filter resolves_requested_documents)
  have doc: "is_document t = document_of s t" "document_of s t = (t \<noteq> p)"
    using s p by (auto simp: is_document_def document_of_def)
  have seen: "t \<in> set (map vtype ?docs) \<longleftrightarrow> t \<in> set pre \<and> t \<noteq> p"
    using doc by (auto simp: types set_requested_documents)
  have grow: "List.map_filter (form_values form) (requested_documents s (pre @ [t])) =
      (if t \<noteq> p \<and> t \<notin> set pre then ?docs @ [v] else ?docs)"
    using doc v by (simp add: requested_documents_snoc map_filter_snoc)
  show ?thesis
    unfolding ComputeScopes_step_def
    using s p f v seen doc
    by (simp add: findValue_def emplaced docs0 Let_def built_snoc [OF s p f] grow del: set_map)
qed

lemma ComputeScopes_loop_built:
  "list_all (request_ok form) (pre @ ts) \<Longrightarrow>
   ComputeScopes_loop form ts (built form pre, log) =
     Inr (built form (pre @ ts), log @ logged pre ts)"
proof (induction ts arbitrary: pre log)
  case Nil
  then show ?case by simp
next
  case (Cons t ts)
  from Cons.prems have t: "request_ok form t" and pre: "list_all (request_ok form) pre"
    and all: "list_all (request_ok form) ((pre @ [t]) @ ts)"
    by simp_all
  show ?case
    using Cons.IH [OF all] by (simp add: ComputeScopes_step_built [OF t pre])
qed

lemma ComputeScopes_built:
  "form_ok form \<Longrightarrow>
   ComputeScopes form =
     Inr (List.map_filter (built form (request form)) ScopeType_order, logged [] (request form))"
  using ComputeScopes_loop_built [of form "[]" "request form" "[]"]
  by (simp add: ComputeScopes_def form_ok_def)


lemma built_SomeD:
  "built form ts s = Some scope \<Longrightarrow>
   scope_type scope = s
   \<and> documents scope = List.map_filter (form_values form) (requested_documents s ts)
   \<and> selfieRequired scope = (s = S_Identity \<and> identitySelfieRequired form)"
  by (auto simp: built_def split: if_splits sum.splits option.splits)

lemma built_requested:
  assumes "list_all (request_ok form) ts"
  shows "built form ts s \<noteq> None \<longleftrightarrow> Inr s \<in> ScopeTypeForValueType ` set ts"
proof
  assume "built form ts s \<noteq> None"
  then have "list_ex (\<lambda>t. ScopeTypeForValueType t = Inr s) ts"
    by (auto simp: built_def split: if_splits)
  then obtain t where "t \<in> set ts" "ScopeTypeForValueType t = Inr s"
    by (auto simp: list_ex_iff)
  then show "Inr s \<in> ScopeTypeForValueType ` set ts"
    by (metis imageI)
next
  assume "Inr s \<in> ScopeTypeForValueType ` set ts"
  then obtain t where t: "t \<in> set ts" "ScopeTypeForValueType t = Inr s"
    by (auto simp: image_iff)
  then have "request_ok form t" using assms by (simp add: list_all_iff)
  then obtain p f where "FieldsTypeForScopeType s = Inr p" "form_values form p = Some f"
    using t(2) by (auto simp: request_ok_def resolves_def split: sum.splits option.splits)
  then show "built form ts s \<noteq> None"
    using t by (auto simp: built_def list_ex_iff)
qed

lemma scope_type_map_filter:
  "(\<And>k scope. m k = Some scope \<Longrightarrow> scope_type scope = k) \<Longrightarrow>
   map scope_type (List.map_filter m ks) = filter (\<lambda>k. m k \<noteq> None) ks"
  by (induction ks) (auto simp: List.map_filter_simps split: option.splits)

lemma ComputeScopes_types:
  assumes "form_ok form"
  shows "\<exists>scopes log. ComputeScopes form = Inr (scopes, log)
     \<and> map scope_type scopes =
         filter (\<lambda>s. Inr s \<in> ScopeTypeForValueType ` set (request form))
           [S_Identity, S_Address, S_Phone, S_Email]"
proof -
  have "map scope_type (List.map_filter (built form (request form)) ScopeType_order) =
      filter (\<lambda>s. built form (request form) s \<noteq> None) ScopeType_order"
    by (rule scope_type_map_filter) (simp add: built_SomeD)
  also have "\<dots> = filter (\<lambda>s. Inr s \<in> ScopeTypeForValueType ` set (request form))
           [S_Identity, S_Address, S_Phone, S_Email]"
  proof -
    have "(\<lambda>s. built form (request form) s \<noteq> None) =
        (\<lambda>s. Inr s \<in> ScopeTypeForValueType ` set (request form))"
      using assms by (intro ext built_requested) (simp add: form_ok_def)
    then show ?thesis by (simp only: ScopeType_order_def)
  qed
  finally show ?thesis
    using ComputeScopes_built [OF assms] by simp
qed

lemma documents_belong_built:
  assumes "list_all (request_ok form) ts" and "built form ts s = Some scope"
  shows "documents_belong scope"
proof -
  have d: "documents scope = List.map_filter (form_values form) (requested_documents s ts)"
    and s: "scope_type scope = s"
    using built_SomeD [OF assms(2)] by simp_all
  have "map vtype (documents scope) = requested_documents s ts"
    using assms(1) by (simp add: d vtype_map_filter resolves_requested_documents)
  then have "list_all (document_of s) (map vtype (documents scope))"
    by (simp add: list_all_iff set_requested_documents)
  then show ?thesis
    by (simp add: documents_belong_def s list_all_iff)
qed

lemma ComputeScopes_members:
  assumes "form_ok form" and "ComputeScopes form = Inr (scopes, log)" and "scope \<in> set scopes"
  shows "built form (request form) (scope_type scope) = Some scope"
proof -
  have "scopes = List.map_filter (built form (request form)) ScopeType_order"
    using ComputeScopes_built [OF assms(1)] assms(2) by simp
  then obtain s where "built form (request form) s = Some scope"
    using assms(3) by (auto simp: List.map_filter_def)
  then show ?thesis using built_SomeD by blast
qed

lemma ComputeScopes_documents_belong:
  assumes "form_ok form" and "ComputeScopes form = Inr (scopes, log)" and "scope \<in> set scopes"
  shows "documents_belong scope"
  using documents_belong_built ComputeScopes_members [OF assms] assms(1)
  by (simp add: form_ok_def)

subsection \<open>The example form\<close>

lemmas summary_defs =
  ComputeScopeRowReadyString_def document_summary_def contact_summary_def
  find_document_def document_incomplete_def row_string_def rejected_def

lemmas example_defs =
  example_env_def numbering_env_def example_document_scheme_def
  NotEmptyValidate_def GenderFormat_def
  personal_details_value_def passport_value_def identity_card_value_def address_value_def
  utility_bill_value_def rental_agreement_value_def phone_value_def
  passport_scope_def selfie_scope_def address_scope_def phone_scope_def
  email_value_def email_scope_def two_document_scope_def

lemma example_form_ok: "form_ok example_form"
  by (simp add: form_ok_def request_ok_def resolves_def example_form_def example_defs)

lemma example_form_scopes:
  "ComputeScopes example_form =
    Inr ([ passport_scope,
           \<lparr>scope_type = S_Address, scope_fields = address_value,
            documents = [utility_bill_value], selfieRequired = False\<rparr>,
           phone_scope ],
         [V_Passport])"
  by (simp add: ComputeScopes_def ComputeScopes_step_def findValue_def Scope_new_def
      example_form_def ScopeType_order_def List.map_filter_simps
      passport_scope_def phone_scope_def
      passport_value_def utility_bill_value_def Let_def)

subsection \<open>Order of the scopes\<close>

text \<open>
  Claim C3. On a well-formed form \<^verbatim>\<open>ComputeScopes\<close> returns, and the types of the
  scopes it returns are Identity, Address, Phone, Email in this order, restricted
  to the scope types of the requested value types. The list depends on the set
  of requested types only, so any reordering of the request gives the same
  sequence of scope types.
\<close>

theorem ComputeScopes_order:
  assumes "form_ok form"
  shows "\<exists>scopes log. ComputeScopes form = Inr (scopes, log)
     \<and> map scope_type scopes =
         filter (\<lambda>s. Inr s \<in> ScopeTypeForValueType ` set (request form))
           [S_Identity, S_Address, S_Phone, S_Email]
     \<and> (\<forall>form' scopes' log'.
           form_ok form' \<and> set (request form') = set (request form)
           \<and> ComputeScopes form' = Inr (scopes', log')
           \<longrightarrow> map scope_type scopes' = map scope_type scopes)"
proof -
  obtain scopes log where r: "ComputeScopes form = Inr (scopes, log)"
    "map scope_type scopes =
         filter (\<lambda>s. Inr s \<in> ScopeTypeForValueType ` set (request form))
           [S_Identity, S_Address, S_Phone, S_Email]"
    using ComputeScopes_types [OF assms] by blast
  have "map scope_type scopes' = map scope_type scopes"
    if "form_ok form'" "set (request form') = set (request form)"
       "ComputeScopes form' = Inr (scopes', log')" for form' scopes' log'
    using ComputeScopes_types [OF that(1)] that(2,3) r(2) by auto
  then show ?thesis using r by blast
qed

theorem ComputeScopes_order_witness:
  "form_ok example_form
   \<and> request example_form =
       [V_Phone, V_UtilityBill, V_Passport, V_PersonalDetails, V_Passport, V_Address]
   \<and> (\<exists>scopes log. ComputeScopes example_form = Inr (scopes, log)
         \<and> map scope_type scopes = [S_Identity, S_Address, S_Phone])"
proof -
  obtain scopes log where "ComputeScopes example_form = Inr (scopes, log)"
    and "map scope_type scopes =
         filter (\<lambda>s. Inr s \<in> ScopeTypeForValueType ` set (request example_form))
           [S_Identity, S_Address, S_Phone, S_Email]"
    using ComputeScopes_order [OF example_form_ok] by blast
  moreover have "filter (\<lambda>s. Inr s \<in> ScopeTypeForValueType ` set (request example_form))
           [S_Identity, S_Address, S_Phone, S_Email] = [S_Identity, S_Address, S_Phone]"
    by (simp add: example_form_def)
  ultimately show ?thesis
    using example_form_ok by (simp add: example_form_def)
qed

subsection \<open>Duplicate requests\<close>

lemma resolves_request_update [simp]:
  "resolves (form\<lparr>request := r\<rparr>) = resolves form"
  by (rule ext) (simp add: resolves_def)

lemma request_ok_request_update [simp]:
  "request_ok (form\<lparr>request := r\<rparr>) = request_ok form"
  by (rule ext) (simp add: request_ok_def cong: sum.case_cong)

lemma built_request_update [simp]:
  "built (form\<lparr>request := r\<rparr>) = built form"
  by (intro ext) (simp add: built_def cong: sum.case_cong option.case_cong)

lemma requested_documents_drop_later:
  "t \<in> set xs \<Longrightarrow> requested_documents s (xs @ t # ys) = requested_documents s (xs @ ys)"
  by (simp add: requested_documents_def keep_first_drop_later)

lemma built_drop_later:
  "t \<in> set xs \<Longrightarrow> built form (xs @ t # ys) = built form (xs @ ys)"
proof (rule ext)
  fix s
  assume t: "t \<in> set xs"
  then have "list_ex (\<lambda>t. ScopeTypeForValueType t = Inr s) (xs @ t # ys) =
      list_ex (\<lambda>t. ScopeTypeForValueType t = Inr s) (xs @ ys)"
    by (auto simp: list_ex_iff)
  then show "built form (xs @ t # ys) s = built form (xs @ ys) s"
    using t by (simp only: built_def requested_documents_drop_later)
qed

lemma logged_later:
  "t \<in> set (seen @ xs) \<Longrightarrow> is_document t \<Longrightarrow> t \<in> set (logged seen (xs @ t # ys))"
  by (induction xs arbitrary: seen) auto

lemma filter_scope_type_map_filter:
  assumes "\<And>k scope. m k = Some scope \<Longrightarrow> scope_type scope = k"
      and "distinct ks" and "s \<in> set ks" and "m s = Some scope"
  shows "filter (\<lambda>sc. scope_type sc = s) (List.map_filter m ks) = [scope]"
  using assms(2,3)
proof (induction ks)
  case Nil
  then show ?case by simp
next
  case (Cons k ks)
  have none: "filter (\<lambda>sc. scope_type sc = s) (List.map_filter m ks) = []" if "s \<notin> set ks"
    using that assms(1) by (auto simp: filter_empty_conv List.map_filter_def)
  show ?case
  proof (cases "k = s")
    case True
    then show ?thesis using Cons.prems assms(4) assms(1) [OF assms(4)] none
      by (simp add: List.map_filter_simps)
  next
    case False
    then show ?thesis using Cons assms(1)
      by (auto simp: List.map_filter_simps split: option.splits)
  qed
qed

lemma filter_vtype_map_filter:
  assumes "list_all (resolves form) ts" and "distinct ts" and "t \<in> set ts"
      and "form_values form t = Some v"
  shows "filter (\<lambda>d. vtype d = t) (List.map_filter (form_values form) ts) = [v]"
  using assms(1,2,3)
proof (induction ts)
  case Nil
  then show ?case by simp
next
  case (Cons a ts)
  have none: "filter (\<lambda>d. vtype d = t) (List.map_filter (form_values form) ts) = []"
    if "t \<notin> set ts" "list_all (resolves form) ts"
  proof -
    have "map vtype (List.map_filter (form_values form) ts) = ts"
      using that(2) by (rule vtype_map_filter)
    then have "t \<notin> vtype ` set (List.map_filter (form_values form) ts)"
      using that(1) by (metis set_map)
    then show ?thesis by (auto simp: filter_empty_conv)
  qed
  show ?case
  proof (cases "a = t")
    case True
    moreover have "vtype v = t"
      using assms(4) Cons.prems(1) True by (simp add: resolves_def)
    moreover have "filter (\<lambda>d. vtype d = t) (List.map_filter (form_values form) ts) = []"
      using Cons.prems True by (intro none) simp_all
    ultimately show ?thesis using assms(4)
      by (simp add: List.map_filter_simps)
  next
    case False
    then show ?thesis using Cons
      by (auto simp: List.map_filter_simps resolves_def split: option.splits)
  qed
qed

text \<open>
  Claim C2. Let a well-formed form request the document type \<open>t\<close> twice.
  \<^verbatim>\<open>ComputeScopes\<close> returns (the duplicate is not fatal) and exactly one of the
  scopes has the scope type of \<open>t\<close>. Its documents hold exactly one value of
  type \<open>t\<close>, the value of the form for \<open>t\<close>; the types of its documents are
  the first occurrences of the requested document types of the scope, in request
  order. The duplicate is logged, and the scopes are those of the request without
  the later occurrence.
\<close>

theorem duplicate_document_request:
  assumes ok: "form_ok form"
      and req: "request form = xs @ t # ys @ t # zs"
      and doc: "is_document t"
  shows "\<exists>scopes log scope v.
      ComputeScopes form = Inr (scopes, log)
    \<and> filter (\<lambda>sc. ScopeTypeForValueType t = Inr (scope_type sc)) scopes = [scope]
    \<and> form_values form t = Some v
    \<and> filter (\<lambda>d. vtype d = t) (documents scope) = [v]
    \<and> map vtype (documents scope) =
        keep_first (filter (document_of (scope_type scope)) (request form))
    \<and> t \<in> set log
    \<and> (\<exists>log'. ComputeScopes (form\<lparr>request := xs @ t # ys @ zs\<rparr>) = Inr (scopes, log'))"
proof -
  let ?req = "request form"
  have all: "list_all (request_ok form) ?req" using ok by (simp add: form_ok_def)
  have t: "t \<in> set ?req" by (simp add: req)
  then have tok: "request_ok form t" using all by (simp add: list_all_iff)
  obtain s where s: "ScopeTypeForValueType t = Inr s" "document_of s t"
    using doc by (auto simp: is_document_def split: sum.splits)
  obtain v where v: "form_values form t = Some v"
    using tok by (auto simp: request_ok_def resolves_def split: option.splits)
  have "built form ?req s \<noteq> None"
    using t s(1) by (subst built_requested [OF all]) (metis imageI)
  then obtain scope where scope: "built form ?req s = Some scope" by blast
  note sd = built_SomeD [OF scope]
  have one: "filter (\<lambda>sc. ScopeTypeForValueType t = Inr (scope_type sc))
        (List.map_filter (built form ?req) ScopeType_order) = [scope]"
  proof -
    have "filter (\<lambda>sc. ScopeTypeForValueType t = Inr (scope_type sc))
        (List.map_filter (built form ?req) ScopeType_order) =
      filter (\<lambda>sc. scope_type sc = s) (List.map_filter (built form ?req) ScopeType_order)"
      using s(1) by (intro filter_cong) auto
    also have "filter (\<lambda>sc. scope_type sc = s)
        (List.map_filter (built form ?req) ScopeType_order) = [scope]"
    proof (rule filter_scope_type_map_filter [where m = "built form ?req"])
      show "scope_type sc = k" if "built form ?req k = Some sc" for k sc
        using built_SomeD [OF that] by simp
      show "distinct ScopeType_order" by (simp add: ScopeType_order_def)
      show "s \<in> set ScopeType_order" by (cases s) (simp_all add: ScopeType_order_def)
      show "built form ?req s = Some scope" by (rule scope)
    qed
    finally show ?thesis .
  qed
  have res: "list_all (resolves form) (requested_documents s ?req)"
    using all by (rule resolves_requested_documents)
  have only: "filter (\<lambda>d. vtype d = t) (documents scope) = [v]"
    using res t s(2) v
    by (simp add: sd filter_vtype_map_filter requested_documents_def)
  have types: "map vtype (documents scope) =
        keep_first (filter (document_of (scope_type scope)) ?req)"
    using res by (simp add: sd vtype_map_filter) (simp add: requested_documents_def)
  have lg: "t \<in> set (logged [] ?req)"
    using logged_later [of t "[]" "xs @ t # ys" zs] doc by (simp add: req)
  let ?form' = "form\<lparr>request := xs @ t # ys @ zs\<rparr>"
  have ok': "form_ok ?form'" using all by (simp add: form_ok_def req)
  have same: "built form (xs @ t # ys @ zs) = built form ?req"
    using built_drop_later [of t "xs @ t # ys" form zs] by (simp add: req)
  have "ComputeScopes ?form' =
      Inr (List.map_filter (built form ?req) ScopeType_order, logged [] (xs @ t # ys @ zs))"
    using ComputeScopes_built [OF ok'] by (simp add: same)
  then show ?thesis
    using ComputeScopes_built [OF ok] one v only types lg by auto
qed

theorem duplicate_document_request_witness:
  "form_ok example_form
   \<and> request example_form = [V_Phone, V_UtilityBill] @ V_Passport # [V_PersonalDetails] @ V_Passport # [V_Address]
   \<and> is_document V_Passport
   \<and> ComputeScopes example_form =
       Inr ([ passport_scope,
              \<lparr>scope_type = S_Address, scope_fields = address_value,
               documents = [utility_bill_value], selfieRequired = False\<rparr>,
              phone_scope ],
            [V_Passport])
   \<and> documents passport_scope = [passport_value]
   \<and> (\<exists>log'. ComputeScopes
         (example_form\<lparr>request := [V_Phone, V_UtilityBill] @ V_Passport # [V_PersonalDetails] @ [V_Address]\<rparr>) =
       Inr ([ passport_scope,
              \<lparr>scope_type = S_Address, scope_fields = address_value,
               documents = [utility_bill_value], selfieRequired = False\<rparr>,
              phone_scope ],
            log'))"
proof -
  have req: "request example_form =
      [V_Phone, V_UtilityBill] @ V_Passport # [V_PersonalDetails] @ V_Passport # [V_Address]"
    by (simp add: example_form_def)
  have doc: "is_document V_Passport" by (simp add: is_document_def document_of_def)
  show ?thesis
    using duplicate_document_request [OF example_form_ok req doc] example_form_ok req doc
    by (auto simp: example_form_scopes passport_scope_def)
qed

section \<open>Properties of the summary formatter\<close>

lemma find_document_scans: "find_document scope = Some d \<Longrightarrow> scans d \<noteq> []"
  by (auto simp: find_document_def find_Some_iff)

lemma find_split:
  "List.find P xs = Some x \<Longrightarrow>
   \<exists>before after. xs = before @ x # after \<and> list_all (\<lambda>b. \<not> P b) before \<and> P x"
proof (induction xs)
  case Nil
  then show ?case by simp
next
  case (Cons a xs)
  show ?case
  proof (cases "P a")
    case True
    then have "a # xs = [] @ x # xs \<and> list_all (\<lambda>b. \<not> P b) [] \<and> P x"
      using Cons.prems by simp
    then show ?thesis by blast
  next
    case False
    then obtain before after where "xs = before @ x # after"
      "list_all (\<lambda>b. \<not> P b) before" "P x"
      using Cons by auto
    then have "a # xs = (a # before) @ x # after \<and> list_all (\<lambda>b. \<not> P b) (a # before) \<and> P x"
      using False by simp
    then show ?thesis by blast
  qed
qed

lemma is_document_label: "is_document t \<Longrightarrow> \<exists>k. document_label t = Inr k"
  by (cases t) (simp_all add: is_document_def document_of_def)

lemma rows_loop_those:
  "rows_loop flds document rs list =
    (case those (map (row_string flds document) rs) of
       None \<Rightarrow> ''''
     | Some strs \<Rightarrow> join (list @ strs) '', '')"
  by (induction rs arbitrary: list) (auto split: option.splits)

lemma passport_scope_summary:
  "ComputeScopeRowReadyString example_env passport_scope = Inr ''Ada, Female, X123''"
  by (simp add: summary_defs example_defs)

text \<open>
  Claim C7. For a Phone or Email scope \<^verbatim>\<open>ComputeScopeRowReadyString\<close> looks the
  key \<open>''value''\<close> up in the fields of the scope: it returns the empty string
  when the key is absent, else the value, passed through the formatter of the
  contact scheme when there is one. Nothing is joined. The example is the phone
  scope with the value \<open>''+1 555 0100''\<close> and no formatter.
\<close>

theorem contact_summary_value:
  "scope_type scope = S_Phone \<or> scope_type scope = S_Email \<Longrightarrow>
   ComputeScopeRowReadyString env scope =
     Inr (case parsed_fields (scope_fields scope) ''value'' of
            None \<Rightarrow> ''''
          | Some v \<Rightarrow>
              (case contact_format (GetContactScheme env (scope_type scope)) of
                 None \<Rightarrow> v
               | Some f \<Rightarrow> f v))"
  by (auto simp: ComputeScopeRowReadyString_def contact_summary_def split: option.splits)

theorem contact_summary_value_witness:
  "scope_type phone_scope = S_Phone
   \<and> parsed_fields (scope_fields phone_scope) ''value'' = Some ''+1 555 0100''
   \<and> contact_format (GetContactScheme example_env (scope_type phone_scope)) = None
   \<and> ComputeScopeRowReadyString example_env phone_scope = Inr ''+1 555 0100''"
  using contact_summary_value [of phone_scope example_env]
  by (simp add: example_defs)



text \<open>
  Claim C6. Take an Identity scope that requires a selfie and whose representative
  document has none, the representative being a document (its type is not a
  fields type, which is what \<open>documents\<close> holds). Then
  \<^verbatim>\<open>ComputeScopeRowReadyString\<close> returns the empty string, whatever the fields,
  the scheme table and the string table are, and it does not abort.
\<close>

theorem missing_selfie_empty_summary:
  assumes "scope_type scope = S_Identity"
      and "selfieRequired scope"
      and "find_document scope = Some d"
      and "selfie d = None"
      and "is_document (vtype d)"
  shows "ComputeScopeRowReadyString env scope = Inr ''''"
proof -
  obtain k where "document_label (vtype d) = Inr k"
    using is_document_label assms(5) by blast
  then show ?thesis
    using assms
    by (simp add: ComputeScopeRowReadyString_def document_summary_def document_incomplete_def)
qed

theorem missing_selfie_empty_summary_witness:
  "scope_type selfie_scope = S_Identity
   \<and> selfieRequired selfie_scope
   \<and> find_document selfie_scope = Some passport_value
   \<and> selfie passport_value = None
   \<and> is_document (vtype passport_value)
   \<and> ComputeScopeRowReadyString example_env selfie_scope = Inr ''''"
  using missing_selfie_empty_summary [of selfie_scope passport_value example_env]
  by (simp add: example_defs find_document_def is_document_def document_of_def)

lemma document_label_keys:
  "document_label t = Inr k \<Longrightarrow>
     (t = V_Passport \<longrightarrow> k = lng_passport_identity_passport)
   \<and> (t = V_DriverLicense \<longrightarrow> k = lng_passport_identity_license)
   \<and> (t = V_IdentityCard \<longrightarrow> k = lng_passport_identity_card)
   \<and> (t = V_BankStatement \<longrightarrow> k = lng_passport_address_statement)
   \<and> (t = V_UtilityBill \<longrightarrow> k = lng_passport_address_bill)
   \<and> (t = V_RentalAgreement \<longrightarrow> k = lng_passport_address_agreement)"
  by (cases t) auto

text \<open>
  Claim C8. For an Identity or Address scope the representative document is
  absent exactly when no document has scans, and otherwise it is a document with
  scans before which every document has none. When it exists, is a document,
  and the scope has more than one document, its type is one of the six document
  types and the label switch yields the key of that type: the passport key for
  Passport, the license key for DriverLicense, the card key for IdentityCard,
  the statement key for BankStatement, the bill key for UtilityBill and the
  agreement key for RentalAgreement. The summary is then either empty (the
  selfie is required and missing, or some row returns early) or the join with
  \<open>'', ''\<close> of the localized string of that key followed by the strings of the
  scheme rows in order. The examples are the address scope with a utility bill
  with scans and a rental agreement without, and an identity scope whose second
  document, a passport, is the first with scans.
\<close>

theorem representative_document_label:
  assumes "scope_type scope = S_Identity \<or> scope_type scope = S_Address"
  shows "(find_document scope = None \<longleftrightarrow> list_all (\<lambda>d. scans d = []) (documents scope))
   \<and> (\<forall>d. find_document scope = Some d \<longrightarrow>
        (\<exists>before after. documents scope = before @ d # after
            \<and> list_all (\<lambda>b. scans b = []) before \<and> scans d \<noteq> [])
        \<and> (1 < length (documents scope) \<and> is_document (vtype d) \<longrightarrow>
             (\<exists>k. document_label (vtype d) = Inr k
                \<and> (vtype d = V_Passport \<longrightarrow> k = lng_passport_identity_passport)
                \<and> (vtype d = V_DriverLicense \<longrightarrow> k = lng_passport_identity_license)
                \<and> (vtype d = V_IdentityCard \<longrightarrow> k = lng_passport_identity_card)
                \<and> (vtype d = V_BankStatement \<longrightarrow> k = lng_passport_address_statement)
                \<and> (vtype d = V_UtilityBill \<longrightarrow> k = lng_passport_address_bill)
                \<and> (vtype d = V_RentalAgreement \<longrightarrow> k = lng_passport_address_agreement)
                \<and> vtype d \<in> {V_Passport, V_DriverLicense, V_IdentityCard,
                             V_BankStatement, V_UtilityBill, V_RentalAgreement}
                \<and> ComputeScopeRowReadyString env scope =
                    Inr (if selfieRequired scope \<and> selfie d = None then ''''
                         else case those (map (row_string (parsed_fields (scope_fields scope))
                                                 (Some d))
                                            (rows (GetDocumentScheme env (scope_type scope)))) of
                                None \<Rightarrow> ''''
                              | Some strs \<Rightarrow> join (lang env k # strs) '', ''))))"
proof (intro conjI allI impI)
  show "find_document scope = None \<longleftrightarrow> list_all (\<lambda>d. scans d = []) (documents scope)"
    by (auto simp: find_document_def find_None_iff list_all_iff)
next
  fix d assume d: "find_document scope = Some d"
  then show "\<exists>before after. documents scope = before @ d # after
      \<and> list_all (\<lambda>b. scans b = []) before \<and> scans d \<noteq> []"
    using find_split [of "\<lambda>document. scans document \<noteq> []" "documents scope" d]
    by (simp add: find_document_def)
next
  fix d assume d: "find_document scope = Some d"
    and many: "1 < length (documents scope) \<and> is_document (vtype d)"
  obtain k where k: "document_label (vtype d) = Inr k"
    using is_document_label many by blast
  note keys = document_label_keys [OF k]
  have six: "vtype d \<in> {V_Passport, V_DriverLicense, V_IdentityCard,
                        V_BankStatement, V_UtilityBill, V_RentalAgreement}"
    using k by (cases "vtype d") simp_all
  have "scans d \<noteq> []" using d by (rule find_document_scans)
  then have "ComputeScopeRowReadyString env scope =
      Inr (if selfieRequired scope \<and> selfie d = None then ''''
           else case those (map (row_string (parsed_fields (scope_fields scope)) (Some d))
                              (rows (GetDocumentScheme env (scope_type scope)))) of
                  None \<Rightarrow> ''''
                | Some strs \<Rightarrow> join (lang env k # strs) '', '')"
    using assms d many k
    by (auto simp: ComputeScopeRowReadyString_def document_summary_def document_incomplete_def
        rows_loop_those split: option.splits)
  then show "\<exists>k. document_label (vtype d) = Inr k
      \<and> (vtype d = V_Passport \<longrightarrow> k = lng_passport_identity_passport)
      \<and> (vtype d = V_DriverLicense \<longrightarrow> k = lng_passport_identity_license)
      \<and> (vtype d = V_IdentityCard \<longrightarrow> k = lng_passport_identity_card)
      \<and> (vtype d = V_BankStatement \<longrightarrow> k = lng_passport_address_statement)
      \<and> (vtype d = V_UtilityBill \<longrightarrow> k = lng_passport_address_bill)
      \<and> (vtype d = V_RentalAgreement \<longrightarrow> k = lng_passport_address_agreement)
      \<and> vtype d \<in> {V_Passport, V_DriverLicense, V_IdentityCard,
                   V_BankStatement, V_UtilityBill, V_RentalAgreement}
      \<and> ComputeScopeRowReadyString env scope =
          Inr (if selfieRequired scope \<and> selfie d = None then ''''
               else case those (map (row_string (parsed_fields (scope_fields scope)) (Some d))
                                  (rows (GetDocumentScheme env (scope_type scope)))) of
                      None \<Rightarrow> ''''
                    | Some strs \<Rightarrow> join (lang env k # strs) '', '')"
    using k keys six by blast
qed

theorem representative_document_label_witness:
  "scope_type address_scope = S_Address
   \<and> documents address_scope = [utility_bill_value, rental_agreement_value]
   \<and> scans utility_bill_value \<noteq> [] \<and> scans rental_agreement_value = []
   \<and> find_document address_scope = Some utility_bill_value
   \<and> lang example_env lng_passport_address_bill = ''Utility Bill''
   \<and> ComputeScopeRowReadyString example_env address_scope =
       Inr ''Utility Bill, 1 Main St, Springfield''
   \<and> scope_type two_document_scope = S_Identity
   \<and> documents two_document_scope = [identity_card_value, passport_value]
   \<and> scans identity_card_value = [] \<and> scans passport_value \<noteq> []
   \<and> find_document two_document_scope = Some passport_value
   \<and> lang example_env lng_passport_identity_passport = ''Passport''
   \<and> ComputeScopeRowReadyString example_env two_document_scope =
       Inr ''Passport, Ada, Female, X123''"
  using representative_document_label [of address_scope example_env]
        representative_document_label [of two_document_scope example_env]
  by (simp add: example_defs find_document_def is_document_def document_of_def row_string_def
      rejected_def)

text \<open>
  Claim C1, at the input where the code departs from it. The scheme of
  \<open>numbering_env\<close> has one document row whose formatter puts \<open>''No. ''\<close> in front
  of the value. The representative document of the scope is the passport, whose
  field \<open>document_no\<close> is \<open>''X123''\<close>. The summary is \<open>''X123''\<close>: the value of a
  document row is pushed as it is, the formatter of the row is not applied.
\<close>

theorem document_row_pushed_unformatted:
  "rows (GetDocumentScheme numbering_env (scope_type passport_scope)) =
     [\<lparr>valueClass = Scans, key = ''document_no'', validate = None,
       format = Some (\<lambda>v. ''No. '' @ v)\<rparr>]
   \<and> find_document passport_scope = Some passport_value
   \<and> parsed_fields passport_value ''document_no'' = Some ''X123''
   \<and> ComputeScopeRowReadyString numbering_env passport_scope = Inr ''X123''"
  by (simp add: summary_defs example_defs)

section \<open>Properties of the row presenter\<close>

lemma make_row_ready:
  "make_row env scope t s = Inr row \<Longrightarrow> ComputeScopeRowReadyString env scope = Inr (ready row)"
  by (auto simp: make_row_def split: sum.splits)

lemma single_document_summary:
  "documents scope = [d] \<Longrightarrow> \<exists>r. ComputeScopeRowReadyString env scope = Inr r"
  by (cases "scope_type scope")
     (auto simp: ComputeScopeRowReadyString_def document_summary_def Let_def
           split: option.splits)

lemma passport_scope_row:
  "ComputeScopeRow example_env passport_scope =
     Inr \<lparr>title = ''Passport'', subtitle = ''Upload a scan of your passport'',
          ready = ''Ada, Female, X123''\<rparr>"
proof -
  have "make_row example_env passport_scope t s =
      Inr \<lparr>title = lang_en t, subtitle = lang_en s, ready = ''Ada, Female, X123''\<rparr>" for t s
    by (simp add: make_row_def passport_scope_summary) (simp add: example_env_def)
  moreover have "scope_type passport_scope = S_Identity"
    "documents passport_scope = [passport_value]" "vtype passport_value = V_Passport"
    by (simp_all add: passport_scope_def passport_value_def)
  ultimately show ?thesis
    by (simp add: ComputeScopeRow_def)
qed

lemma document_of_is_document: "document_of s t \<Longrightarrow> is_document t"
  by (simp add: is_document_def document_of_def)

lemma documents_belong_summary:
  assumes "documents_belong scope"
  shows "\<exists>r. ComputeScopeRowReadyString env scope = Inr r"
proof (cases "find_document scope")
  case None
  then show ?thesis
    by (cases "scope_type scope")
       (simp_all add: ComputeScopeRowReadyString_def document_summary_def)
next
  case (Some d)
  then have "d \<in> set (documents scope)"
    by (auto simp: find_document_def find_Some_iff)
  then have "is_document (vtype d)"
    using assms by (auto simp: documents_belong_def list_all_iff intro: document_of_is_document)
  then obtain k where "document_label (vtype d) = Inr k"
    using is_document_label by blast
  then show ?thesis using Some
    by (cases "scope_type scope")
       (auto simp: ComputeScopeRowReadyString_def document_summary_def Let_def)
qed

lemma contact_scope_summary:
  "scope_type scope = S_Phone \<or> scope_type scope = S_Email \<Longrightarrow>
   \<exists>r. ComputeScopeRowReadyString env scope = Inr r"
  by (auto simp: ComputeScopeRowReadyString_def)

lemma make_row_total:
  "ComputeScopeRowReadyString env scope = Inr r \<Longrightarrow> \<exists>row. make_row env scope t s = Inr row"
  by (simp add: make_row_def)

lemma ComputeScopeRow_total:
  assumes r: "ComputeScopeRowReadyString env scope = Inr r"
      and ok: "documents_belong scope \<or> scope_type scope = S_Phone \<or> scope_type scope = S_Email"
  shows "\<exists>row. ComputeScopeRow env scope = Inr row"
proof (cases "scope_type scope")
  case S_Identity
  then have b: "documents_belong scope" using ok by simp
  show ?thesis
  proof (cases "documents scope")
    case Nil
    then show ?thesis using S_Identity make_row_total [OF r]
      by (simp add: ComputeScopeRow_def)
  next
    case (Cons d ds)
    then have "document_of S_Identity (vtype d)"
      using b S_Identity by (simp add: documents_belong_def)
    then have "vtype d = V_Passport \<or> vtype d = V_IdentityCard \<or> vtype d = V_DriverLicense"
      by (cases "vtype d") (simp_all add: document_of_def)
    then show ?thesis using S_Identity Cons make_row_total [OF r]
      by (auto simp: ComputeScopeRow_def)
  qed
next
  case S_Address
  then have b: "documents_belong scope" using ok by simp
  show ?thesis
  proof (cases "documents scope")
    case Nil
    then show ?thesis using S_Address make_row_total [OF r]
      by (simp add: ComputeScopeRow_def)
  next
    case (Cons d ds)
    then have "document_of S_Address (vtype d)"
      using b S_Address by (simp add: documents_belong_def)
    then have "vtype d = V_BankStatement \<or> vtype d = V_UtilityBill
        \<or> vtype d = V_RentalAgreement"
      by (cases "vtype d") (simp_all add: document_of_def)
    then show ?thesis using S_Address Cons make_row_total [OF r]
      by (auto simp: ComputeScopeRow_def)
  qed
next
  case S_Phone
  then show ?thesis using make_row_total [OF r] by (simp add: ComputeScopeRow_def)
next
  case S_Email
  then show ?thesis using make_row_total [OF r] by (simp add: ComputeScopeRow_def)
qed

lemma address_scope_summary:
  "ComputeScopeRowReadyString example_env address_scope =
     Inr ''Utility Bill, 1 Main St, Springfield''"
  by (simp add: summary_defs example_defs)

lemma phone_scope_summary:
  "ComputeScopeRowReadyString example_env phone_scope = Inr ''+1 555 0100''"
  by (simp add: summary_defs example_defs)

lemma email_scope_summary:
  "ComputeScopeRowReadyString example_env email_scope = Inr ''ada@example.org''"
  by (simp add: summary_defs example_defs)

text \<open>
  Claim C5. Whenever \<^verbatim>\<open>ComputeScopeRow\<close> returns a row, for a scope of any of the
  four types, the summary of the row is the string that
  \<^verbatim>\<open>ComputeScopeRowReadyString\<close> returns for the same scope. It does return a
  row, with that summary, for every Phone and Email scope and for every scope
  whose documents belong to it. The examples are one scope of each of the four
  types.
\<close>

theorem ComputeScopeRow_ready:
  "(ComputeScopeRow env scope = Inr row \<longrightarrow>
      ComputeScopeRowReadyString env scope = Inr (ready row))
   \<and> (documents_belong scope \<or> scope_type scope = S_Phone \<or> scope_type scope = S_Email \<longrightarrow>
        (\<exists>made. ComputeScopeRow env scope = Inr made
           \<and> ComputeScopeRowReadyString env scope = Inr (ready made)))"
proof (intro conjI impI)
  have ready: "ComputeScopeRowReadyString env scope = Inr (ready x)"
    if "ComputeScopeRow env scope = Inr x" for x
    using that unfolding ComputeScopeRow_def
    by (auto split: ScopeType.splits ValueType.splits if_splits dest: make_row_ready)
  show "ComputeScopeRowReadyString env scope = Inr (ready row)"
    if "ComputeScopeRow env scope = Inr row"
    using that by (rule ready)
  show "\<exists>made. ComputeScopeRow env scope = Inr made
      \<and> ComputeScopeRowReadyString env scope = Inr (ready made)"
    if ok: "documents_belong scope \<or> scope_type scope = S_Phone \<or> scope_type scope = S_Email"
  proof -
    obtain r where "ComputeScopeRowReadyString env scope = Inr r"
      using ok documents_belong_summary contact_scope_summary by blast
    then obtain made where "ComputeScopeRow env scope = Inr made"
      using ComputeScopeRow_total ok by blast
    then show ?thesis using ready by blast
  qed
qed

theorem ComputeScopeRow_ready_witness:
  "ComputeScopeRow example_env passport_scope =
     Inr \<lparr>title = ''Passport'', subtitle = ''Upload a scan of your passport'',
          ready = ''Ada, Female, X123''\<rparr>
   \<and> ComputeScopeRowReadyString example_env passport_scope = Inr ''Ada, Female, X123''
   \<and> documents_belong passport_scope
   \<and> documents_belong address_scope
   \<and> (\<exists>made. ComputeScopeRow example_env address_scope = Inr made
         \<and> ready made = ''Utility Bill, 1 Main St, Springfield'')
   \<and> scope_type phone_scope = S_Phone
   \<and> (\<exists>made. ComputeScopeRow example_env phone_scope = Inr made
         \<and> ready made = ''+1 555 0100'')
   \<and> scope_type email_scope = S_Email
   \<and> (\<exists>made. ComputeScopeRow example_env email_scope = Inr made
         \<and> ready made = ''ada@example.org'')"
proof -
  have belong: "documents_belong passport_scope" "documents_belong address_scope"
    by (simp_all add: documents_belong_def document_of_def example_defs)
  have types: "scope_type phone_scope = S_Phone" "scope_type email_scope = S_Email"
    by (simp_all add: example_defs)
  have "ComputeScopeRowReadyString example_env passport_scope = Inr ''Ada, Female, X123''"
    using ComputeScopeRow_ready [where env = example_env and scope = passport_scope]
          passport_scope_row
    by fastforce
  moreover have "\<exists>made. ComputeScopeRow example_env address_scope = Inr made
      \<and> ready made = ''Utility Bill, 1 Main St, Springfield''"
    using ComputeScopeRow_ready [where env = example_env and scope = address_scope]
          belong(2) address_scope_summary
    by fastforce
  moreover have "\<exists>made. ComputeScopeRow example_env phone_scope = Inr made
      \<and> ready made = ''+1 555 0100''"
    using ComputeScopeRow_ready [where env = example_env and scope = phone_scope]
          types(1) phone_scope_summary
    by fastforce
  moreover have "\<exists>made. ComputeScopeRow example_env email_scope = Inr made
      \<and> ready made = ''ada@example.org''"
    using ComputeScopeRow_ready [where env = example_env and scope = email_scope]
          types(2) email_scope_summary
    by fastforce
  ultimately show ?thesis
    using passport_scope_row belong types by simp
qed

text \<open>
  Claim C9. For an Identity scope with exactly one document the summary is
  computed without aborting, and the row carries the title and subtitle of the
  document type when that is Passport, IdentityCard or DriverLicense; for any
  other type \<^verbatim>\<open>ComputeScopeRow\<close> reaches \<^verbatim>\<open>Unexpected\<close>. If the scope is one of
  those \<^verbatim>\<open>ComputeScopes\<close> returns for a well-formed form, the type of the document
  is one of the three and \<^verbatim>\<open>Unexpected\<close> is not reached.
\<close>

theorem identity_single_document_row:
  assumes "scope_type scope = S_Identity" and "documents scope = [d]"
  shows "(\<exists>r. ComputeScopeRowReadyString env scope = Inr r
        \<and> (vtype d = V_Passport \<longrightarrow>
             ComputeScopeRow env scope =
               Inr \<lparr>title = lang env lng_passport_identity_passport,
                    subtitle = lang env lng_passport_identity_passport_upload, ready = r\<rparr>)
        \<and> (vtype d = V_IdentityCard \<longrightarrow>
             ComputeScopeRow env scope =
               Inr \<lparr>title = lang env lng_passport_identity_card,
                    subtitle = lang env lng_passport_identity_card_upload, ready = r\<rparr>)
        \<and> (vtype d = V_DriverLicense \<longrightarrow>
             ComputeScopeRow env scope =
               Inr \<lparr>title = lang env lng_passport_identity_license,
                    subtitle = lang env lng_passport_identity_license_upload, ready = r\<rparr>))
    \<and> (vtype d \<notin> {V_Passport, V_IdentityCard, V_DriverLicense} \<longrightarrow>
         ComputeScopeRow env scope = Inl Unexpected_Identity_type_in_ComputeScopeRow)
    \<and> (\<forall>form scopes log.
          form_ok form \<and> ComputeScopes form = Inr (scopes, log) \<and> scope \<in> set scopes \<longrightarrow>
            vtype d \<in> {V_Passport, V_IdentityCard, V_DriverLicense}
          \<and> ComputeScopeRow env scope \<noteq> Inl Unexpected_Identity_type_in_ComputeScopeRow)"
proof (intro conjI allI impI)
  obtain r where r: "ComputeScopeRowReadyString env scope = Inr r"
    using single_document_summary [OF assms(2)] by blast
  show "\<exists>r. ComputeScopeRowReadyString env scope = Inr r
        \<and> (vtype d = V_Passport \<longrightarrow>
             ComputeScopeRow env scope =
               Inr \<lparr>title = lang env lng_passport_identity_passport,
                    subtitle = lang env lng_passport_identity_passport_upload, ready = r\<rparr>)
        \<and> (vtype d = V_IdentityCard \<longrightarrow>
             ComputeScopeRow env scope =
               Inr \<lparr>title = lang env lng_passport_identity_card,
                    subtitle = lang env lng_passport_identity_card_upload, ready = r\<rparr>)
        \<and> (vtype d = V_DriverLicense \<longrightarrow>
             ComputeScopeRow env scope =
               Inr \<lparr>title = lang env lng_passport_identity_license,
                    subtitle = lang env lng_passport_identity_license_upload, ready = r\<rparr>)"
    using assms r by (auto simp: ComputeScopeRow_def make_row_def)
next
  assume "vtype d \<notin> {V_Passport, V_IdentityCard, V_DriverLicense}"
  then show "ComputeScopeRow env scope = Inl Unexpected_Identity_type_in_ComputeScopeRow"
    using assms by (cases "vtype d") (simp_all add: ComputeScopeRow_def)
next
  fix form scopes log
  assume b: "form_ok form \<and> ComputeScopes form = Inr (scopes, log) \<and> scope \<in> set scopes"
  then have "documents_belong scope"
    using ComputeScopes_documents_belong by blast
  then have "document_of S_Identity (vtype d)"
    using assms by (simp add: documents_belong_def)
  then show t: "vtype d \<in> {V_Passport, V_IdentityCard, V_DriverLicense}"
    by (cases "vtype d") (simp_all add: document_of_def)
  obtain r where r: "ComputeScopeRowReadyString env scope = Inr r"
    using single_document_summary [OF assms(2)] by blast
  show "ComputeScopeRow env scope \<noteq> Inl Unexpected_Identity_type_in_ComputeScopeRow"
    using t assms r by (auto simp: ComputeScopeRow_def make_row_def)
qed

theorem identity_single_document_row_witness:
  "scope_type passport_scope = S_Identity
   \<and> documents passport_scope = [passport_value]
   \<and> vtype passport_value = V_Passport
   \<and> form_ok example_form
   \<and> (\<exists>scopes log. ComputeScopes example_form = Inr (scopes, log) \<and> passport_scope \<in> set scopes)
   \<and> ComputeScopeRow example_env passport_scope =
       Inr \<lparr>title = ''Passport'', subtitle = ''Upload a scan of your passport'',
            ready = ''Ada, Female, X123''\<rparr>"
proof -
  have "scope_type passport_scope = S_Identity" "documents passport_scope = [passport_value]"
    by (simp_all add: passport_scope_def)
  note row = identity_single_document_row [OF this, of example_env]
  have "vtype passport_value = V_Passport" by (simp add: passport_value_def)
  moreover have "\<exists>scopes log. ComputeScopes example_form = Inr (scopes, log)
      \<and> passport_scope \<in> set scopes"
    by (simp add: example_form_scopes)
  moreover have "ComputeScopeRow example_env passport_scope =
       Inr \<lparr>title = ''Passport'', subtitle = ''Upload a scan of your passport'',
            ready = ''Ada, Female, X123''\<rparr>"
    using row \<open>vtype passport_value = V_Passport\<close> passport_scope_summary
    by (auto simp: example_env_def)
  ultimately show ?thesis
    using example_form_ok by (simp add: passport_scope_def)
qed

end
